theory Spec2Isabelle
  imports Main
begin

section \<open>Data model of package backup (pkg/backup/local.go)\<close>

text \<open>
  The types of package \<open>config\<close> are declared outside the file under study; the records
  below carry exactly the fields that \<open>local.go\<close> reads. A pointer to a destination or
  encryption configuration is an \<open>option\<close>: \<open>None\<close> is Go's \<open>nil\<close>. The contents of
  such a configuration are never inspected by \<open>local.go\<close>, so they are an opaque string.
\<close>

type_synonym cfg = string

record Target =
  Uri :: string
  Host :: string
  Port :: int
  Username :: string
  Password :: string
  Database :: string
  Collection :: string
  ExcludeCollections :: "string list"
  ExcludeDatabases :: "string list"
  Params :: string

record Scheduler =
  Timeout :: int
  Retention :: int

record Plan =
  Name :: string
  Mode :: string
  Target :: Target
  Scheduler :: Scheduler
  Encryption :: "cfg option"
  SFTP :: "cfg option"
  S3 :: "cfg option"
  GCloud :: "cfg option"
  Azure :: "cfg option"
  Rclone :: "cfg option"

record AppConfig =
  TmpPath :: string
  StoragePath :: string
  UseAwsCli :: bool

text \<open>\<open>type dumpConfig struct\<close>. A \<open>time.Time\<close> is the number of nanoseconds since the
  Unix epoch.\<close>

record dumpConfig =
  plan :: Plan
  conf :: AppConfig
  tmpPath :: string
  storagePath :: string
  planDir :: string
  ts :: int
  name :: string
  database :: string

text \<open>\<open>type Result struct\<close>: the fields \<open>local.go\<close> assigns. The artifact name field
  \<open>Name\<close> of the source is \<open>ArtifactName\<close> here (the plan's \<open>Name\<close> is a different field),
  and the field \<open>Plan\<close> is \<open>PlanName\<close>.\<close>

record Result =
  PlanName :: string
  Timestamp :: int
  Status :: int
  Duration :: int
  ArtifactName :: string
  Size :: int

subsection \<open>Errors\<close>

text \<open>
  A Go \<open>error\<close> value: \<open>Errorf m\<close> is an error made of a message (\<open>fmt.Errorf\<close>, or
  any error an external collaborator returns), \<open>Wrap cause m\<close> is
  \<open>errors.Wrapf(cause, m)\<close>, and \<open>ErrNotExist p\<close> is the path error that \<open>os.Stat\<close> and
  \<open>os.Remove\<close> give for a path that does not exist.
\<close>

datatype error = Errorf string | Wrap error string | ErrNotExist string

fun Error :: "error \<Rightarrow> string" where
  "Error (Errorf m) = m"
| "Error (Wrap cause m) = m @ '': '' @ Error cause"
| "Error (ErrNotExist p) = p @ '': no such file or directory''"

fun Cause :: "error \<Rightarrow> error" where
  "Cause (Wrap cause m) = Cause cause"
| "Cause e = e"

fun os_IsNotExist :: "error option \<Rightarrow> bool" where
  "os_IsNotExist (Some (ErrNotExist p)) = True"
| "os_IsNotExist _ = False"

subsection \<open>The world outside the package\<close>

text \<open>
  Every call that leaves the package is recorded, in order, in a trace. The destinations
  are the five uploaders of \<open>runDumpAndUpload\<close>.
\<close>

datatype dest = DestSFTP | DestS3 | DestGCloud | DestAzure | DestRclone

datatype event =
    EvCombinedOutput "string list" int
  | EvRun "string list"
  | EvRemove string
  | EvWriteFile string string
  | EvStat string
  | EvEncrypt string string
  | EvRemoveUnencrypted string string
  | EvUpload dest string
  | EvConnect string
  | EvListDatabaseNames
  | EvDisconnect

record world =
  files :: "string \<rightharpoonup> string"
  trace :: "event list"

text \<open>
  What the operating system, the shell, the database and the other files of the
  repository answer is a parameter of the model: every answer may depend on the world
  (files and history) in which the call is made. The two mode constants of package
  \<open>config\<close> and the path cleaning of \<open>filepath.Join\<close> are parameters as well.
\<close>

record env =
  BackupModeDatabase :: string
  BackupModeSingle :: string
  filepath_Join :: "string \<Rightarrow> string \<Rightarrow> string"
  time_Now :: "world \<Rightarrow> int"
  sh_CombinedOutput :: "string list \<Rightarrow> int \<Rightarrow> world \<Rightarrow> string \<times> error option \<times> (string \<rightharpoonup> string)"
  sh_Run :: "string list \<Rightarrow> world \<Rightarrow> error option \<times> (string \<rightharpoonup> string)"
  unlink_error :: "string \<Rightarrow> world \<Rightarrow> error option"
  write_error :: "string \<Rightarrow> world \<Rightarrow> error option"
  stat_error :: "string \<Rightarrow> world \<Rightarrow> error option"
  encrypt :: "string \<Rightarrow> string \<Rightarrow> Plan \<Rightarrow> AppConfig \<Rightarrow> world \<Rightarrow> string \<times> error option \<times> (string \<rightharpoonup> string)"
  removeUnencrypted :: "string \<Rightarrow> string \<Rightarrow> world \<Rightarrow> (string \<rightharpoonup> string)"
  sftpUpload :: "string \<Rightarrow> Plan \<Rightarrow> world \<Rightarrow> string \<times> error option"
  s3Upload :: "string \<Rightarrow> Plan \<Rightarrow> int \<Rightarrow> bool \<Rightarrow> world \<Rightarrow> string \<times> error option"
  gCloudUpload :: "string \<Rightarrow> Plan \<Rightarrow> world \<Rightarrow> string \<times> error option"
  azureUpload :: "string \<Rightarrow> Plan \<Rightarrow> world \<Rightarrow> string \<times> error option"
  rcloneUpload :: "string \<Rightarrow> Plan \<Rightarrow> world \<Rightarrow> string \<times> error option"
  mongo_Connect :: "string \<Rightarrow> world \<Rightarrow> error option"
  ListDatabaseNames :: "world \<Rightarrow> error + string list"

definition emit :: "event \<Rightarrow> world \<Rightarrow> world" where
  "emit ev w = w\<lparr>trace := trace w @ [ev]\<rparr>"

text \<open>\<open>sh.Command(argv...).SetTimeout(d).CombinedOutput()\<close>\<close>

definition CombinedOutput :: "env \<Rightarrow> string list \<Rightarrow> int \<Rightarrow> world \<Rightarrow> (string \<times> error option) \<times> world" where
  "CombinedOutput e argv d w =
     (case sh_CombinedOutput e argv d w of
        (out, err, fs) \<Rightarrow> ((out, err), emit (EvCombinedOutput argv d) (w\<lparr>files := fs\<rparr>)))"

text \<open>\<open>sh.Command(argv...).Run()\<close>\<close>

definition Run_sh :: "env \<Rightarrow> string list \<Rightarrow> world \<Rightarrow> error option \<times> world" where
  "Run_sh e argv w =
     (case sh_Run e argv w of (err, fs) \<Rightarrow> (err, emit (EvRun argv) (w\<lparr>files := fs\<rparr>)))"

text \<open>\<open>os.Remove\<close>: a path that does not exist is an error; a file that exists is unlinked
  unless the operating system refuses (\<open>unlink_error\<close>), and then it stays.\<close>

definition os_Remove :: "env \<Rightarrow> string \<Rightarrow> world \<Rightarrow> error option \<times> world" where
  "os_Remove e p w =
     (case files w p of
        None \<Rightarrow> (Some (ErrNotExist p), emit (EvRemove p) w)
      | Some d \<Rightarrow>
          (case unlink_error e p w of
             Some er \<Rightarrow> (Some er, emit (EvRemove p) w)
           | None \<Rightarrow> (None, emit (EvRemove p) (w\<lparr>files := (files w)(p := None)\<rparr>))))"

text \<open>\<open>ioutil.WriteFile(file, data, 0644)\<close>\<close>

definition WriteFile :: "env \<Rightarrow> string \<Rightarrow> string \<Rightarrow> world \<Rightarrow> error option \<times> world" where
  "WriteFile e p d w =
     (case write_error e p w of
        Some er \<Rightarrow> (Some er, emit (EvWriteFile p d) w)
      | None \<Rightarrow> (None, emit (EvWriteFile p d) (w\<lparr>files := (files w)(p \<mapsto> d)\<rparr>)))"

text \<open>\<open>os.Stat\<close>, reduced to what the source reads: the size, or the error.\<close>

definition os_Stat :: "env \<Rightarrow> string \<Rightarrow> world \<Rightarrow> (error + int) \<times> world" where
  "os_Stat e p w =
     (case files w p of
        None \<Rightarrow> (Inl (ErrNotExist p), emit (EvStat p) w)
      | Some d \<Rightarrow>
          (case stat_error e p w of
             Some er \<Rightarrow> (Inl er, emit (EvStat p) w)
           | None \<Rightarrow> (Inr (int (length d)), emit (EvStat p) w)))"

subsection \<open>Formatting and machine integers\<close>

definition dq :: string where
  "dq = [CHR 0x22]"

definition sq :: string where
  "sq = [CHR 0x27]"

text \<open>Go's \<open>int\<close> and \<open>int64\<close> are 64 bits wide and wrap around.\<close>

definition wrap64 :: "int \<Rightarrow> int" where
  "wrap64 x = (x + 2 ^ 63) mod 2 ^ 64 - 2 ^ 63"

function digits :: "nat \<Rightarrow> string" where
  "digits n = (if n < 10 then [''0123456789'' ! n] else digits (n div 10) @ [''0123456789'' ! (n mod 10)])"
  by pat_completeness auto
termination
  by (relation "measure (\<lambda>n. n)") auto

declare digits.simps [simp del]

text \<open>The verb \<open>%v\<close> (and \<open>%d\<close>) of \<open>fmt.Sprintf\<close> on an integer.\<close>

definition itoa :: "int \<Rightarrow> string" where
  "itoa i = (if i < 0 then ''-'' @ digits (nat (- i)) else digits (nat i))"

text \<open>\<open>time.Time.Unix()\<close>\<close>

definition Unix :: "int \<Rightarrow> int" where
  "Unix t = t div 1000000000"

text \<open>\<open>strings.Replace(s, "\n", " ", -1)\<close>\<close>

definition fold_newlines :: "string \<Rightarrow> string" where
  "fold_newlines s = map (\<lambda>c. if c = CHR 0x0A then CHR '' '' else c) s"

text \<open>\<open>strings.Join\<close>\<close>

fun strings_Join :: "string list \<Rightarrow> string \<Rightarrow> string" where
  "strings_Join [] sep = []"
| "strings_Join [x] sep = x"
| "strings_Join (x # y # ys) sep = x @ sep @ strings_Join (y # ys) sep"

text \<open>\<open>filepath.Split\<close>: the path is cut after its last slash.\<close>

definition filepath_Split :: "string \<Rightarrow> string \<times> string" where
  "filepath_Split p =
     (let file = rev (takeWhile (\<lambda>c. c \<noteq> CHR ''/'') (rev p))
      in (take (length p - length file) p, file))"

text \<open>\<open>time.Time.Sub\<close> and \<open>time.Since\<close>: the difference, saturated to a 64-bit duration.\<close>

definition time_Sub :: "int \<Rightarrow> int \<Rightarrow> int" where
  "time_Sub t u = max (- (2 ^ 63)) (min (2 ^ 63 - 1) (t - u))"

section \<open>The dump executor\<close>

definition archive_path :: "dumpConfig \<Rightarrow> string" where
  "archive_path c = tmpPath c @ ''/'' @ name c @ ''-'' @ itoa (Unix (ts c)) @ ''.gz''"

definition mlog_path :: "dumpConfig \<Rightarrow> string" where
  "mlog_path c = tmpPath c @ ''/'' @ name c @ ''-'' @ itoa (Unix (ts c)) @ ''.log''"

text \<open>The loop over \<open>ExcludeCollections\<close> of \<open>dump\<close>.\<close>

fun exclude_flags :: "string list \<Rightarrow> string" where
  "exclude_flags [] = []"
| "exclude_flags (x # xs) =
     (if x \<noteq> [] then ''--excludeCollection '' @ x @ '' '' else []) @ exclude_flags xs"

text \<open>The command line that \<open>dump\<close> builds, appended piece by piece as in the source.\<close>

definition dump_cmd :: "dumpConfig \<Rightarrow> string" where
  "dump_cmd c =
     (let t = Target (plan c);
          d0 = ''mongodump --archive='' @ archive_path c @ '' --gzip '';
          d1 = (if Uri t \<noteq> [] then d0 @ ''--uri '' @ dq @ Uri t @ dq @ '' ''
                else (let h = d0 @ ''--host '' @ Host t @ '' --port '' @ itoa (Port t) @ '' ''
                      in if Username t \<noteq> [] \<and> Password t \<noteq> []
                         then h @ ''-u '' @ dq @ Username t @ dq @ '' -p '' @ dq @ Password t @ dq @ '' ''
                         else h));
          d2 = (if database c \<noteq> [] then d1 @ ''--db '' @ database c @ '' '' else d1);
          d3 = (if Collection t \<noteq> [] then d2 @ ''--collection '' @ Collection t @ '' '' else d2);
          d4 = d3 @ exclude_flags (ExcludeCollections t)
      in if Params t \<noteq> [] then d4 @ Params t else d4)"

definition logToFile :: "env \<Rightarrow> string \<Rightarrow> string \<Rightarrow> world \<Rightarrow> error option \<times> world" where
  "logToFile e file data w =
     (if length data > 0
      then (case WriteFile e file data w of
              (Some err, w1) \<Rightarrow> (Some (Wrap err (''writing log '' @ file @ '' failed'')), w1)
            | (None, w1) \<Rightarrow> (None, w1))
      else (None, w))"

text \<open>\<open>func dump(c *dumpConfig) (string, string, error)\<close>. The results of \<open>os.Remove\<close>
  and of \<open>logToFile\<close> are dropped, as in the source.\<close>

definition dump :: "env \<Rightarrow> dumpConfig \<Rightarrow> world \<Rightarrow> (string \<times> string \<times> error option) \<times> world" where
  "dump e c w =
     (let archive = archive_path c;
          mlog = mlog_path c;
          timeout = wrap64 (Timeout (Scheduler (plan c)) * 60000000000)
      in case CombinedOutput e [''/bin/sh'', ''-c'', dump_cmd c] timeout w of
           ((output, Some err), w1) \<Rightarrow>
             (let ex = (if length output > 0 then fold_newlines output else [])
              in (([], [], Some (Wrap err (''mongodump log '' @ ex))), snd (os_Remove e archive w1)))
         | ((output, None), w1) \<Rightarrow>
             ((archive, mlog, None), snd (logToFile e mlog output w1)))"

section \<open>The retention pruner\<close>

text \<open>The two shell commands of \<open>applyRetention\<close>, one for each class of files.\<close>

definition retention_gz_cmd :: "string \<Rightarrow> int \<Rightarrow> string" where
  "retention_gz_cmd path retention =
     ''cd '' @ path @ '' && rm -f $(ls -1t *.gz *.gz.encrypted | tail -n +''
       @ itoa (wrap64 (retention + 1)) @ '')''"

definition retention_log_cmd :: "string \<Rightarrow> int \<Rightarrow> string" where
  "retention_log_cmd path retention =
     ''cd '' @ path @ '' && rm -f $(ls -1t *.log | tail -n +''
       @ itoa (wrap64 (retention + 1)) @ '')''"

text \<open>\<open>func applyRetention(path string, retention int) error\<close>\<close>

definition applyRetention :: "env \<Rightarrow> string \<Rightarrow> int \<Rightarrow> world \<Rightarrow> error option \<times> world" where
  "applyRetention e path retention w =
     (let gz = retention_gz_cmd path retention
      in case Run_sh e [''/bin/sh'', ''-c'', gz] w of
           (Some err, w1) \<Rightarrow> (Some (Wrap err (''removing old gz files from '' @ path @ '' failed'')), w1)
         | (None, w1) \<Rightarrow>
             (let log = retention_log_cmd path retention
              in case Run_sh e [''/bin/sh'', ''-c'', log] w1 of
                   (Some err, w2) \<Rightarrow>
                     (Some (Wrap err (''removing old log files from '' @ path @ '' failed'')), w2)
                 | (None, w2) \<Rightarrow> (None, w2)))"

section \<open>The single-database chain\<close>

definition errRes :: "dumpConfig \<Rightarrow> Result" where
  "errRes c = \<lparr>PlanName = Name (plan c), Timestamp = ts c, Status = 500, Duration = 0,
                ArtifactName = [], Size = 0\<rparr>"

text \<open>Lines 251 to 275 of the chain: create the plan directory, stat the archive, move
  the archive and, when it exists, the log. The result is the error of the failing
  step, with the \<open>Result\<close> as far as it is filled.\<close>

definition stageAndMove ::
  "env \<Rightarrow> dumpConfig \<Rightarrow> string \<Rightarrow> string \<Rightarrow> Result \<Rightarrow> world \<Rightarrow> (Result \<times> error option) \<times> world" where
  "stageAndMove e c archive mlog res w =
     (case Run_sh e [''mkdir'', ''-p'', planDir c] w of
        (Some err, w1) \<Rightarrow>
          ((res, Some (Wrap err (''creating dir '' @ name c @ '' in '' @ storagePath c @ '' failed''))), w1)
      | (None, w1) \<Rightarrow>
          (case os_Stat e archive w1 of
             (Inl err, w2) \<Rightarrow> ((res, Some (Wrap err (''stat file '' @ archive @ '' failed''))), w2)
           | (Inr sz, w2) \<Rightarrow>
               (let res1 = res\<lparr>Size := sz\<rparr>
                in case Run_sh e [''mv'', archive, planDir c] w2 of
                     (Some err, w3) \<Rightarrow>
                       ((res1, Some (Wrap err (''moving file from '' @ archive @ '' to '' @ planDir c @ '' failed''))), w3)
                   | (None, w3) \<Rightarrow>
                       (case os_Stat e mlog w3 of
                          (st, w4) \<Rightarrow>
                            if os_IsNotExist (case st of Inl err \<Rightarrow> Some err | Inr sz' \<Rightarrow> None)
                            then ((res1, None), w4)
                            else (case Run_sh e [''mv'', mlog, planDir c] w4 of
                                    (Some err, w5) \<Rightarrow>
                                      ((res1, Some (Wrap err (''moving file from '' @ mlog @ '' to '' @ planDir c @ '' failed''))), w5)
                                  | (None, w5) \<Rightarrow> ((res1, None), w5))))))"

text \<open>Lines 277 to 282: retention, when the plan asks for it.\<close>

definition retain :: "env \<Rightarrow> dumpConfig \<Rightarrow> world \<Rightarrow> error option \<times> world" where
  "retain e c w =
     (if Retention (Scheduler (plan c)) > 0
      then (case applyRetention e (planDir c) (Retention (Scheduler (plan c))) w of
              (Some err, w1) \<Rightarrow> (Some (Wrap err ''retention job failed''), w1)
            | (None, w1) \<Rightarrow> (None, w1))
      else (None, w))"

text \<open>Lines 286 to 296: encryption, when the plan asks for it. The result is the file
  that the uploads are given.\<close>

definition encryptStage :: "env \<Rightarrow> dumpConfig \<Rightarrow> string \<Rightarrow> world \<Rightarrow> (error + string) \<times> world" where
  "encryptStage e c file w =
     (if Encryption (plan c) \<noteq> None
      then (let encryptedFile = file @ ''.encrypted''
            in case encrypt e file encryptedFile (plan c) (conf c) w of
                 (output, Some err, fs) \<Rightarrow>
                   (Inl err, emit (EvEncrypt file encryptedFile) (w\<lparr>files := fs\<rparr>))
               | (output, None, fs) \<Rightarrow>
                   (let w1 = emit (EvEncrypt file encryptedFile) (w\<lparr>files := fs\<rparr>);
                        w2 = emit (EvRemoveUnencrypted file encryptedFile)
                               (w1\<lparr>files := removeUnencrypted e file encryptedFile w1\<rparr>)
                    in (Inr encryptedFile, w2)))
      else (Inr file, w))"

text \<open>Lines 298 to 341: one step for each destination, in the order of the source.\<close>

definition call_uploader :: "env \<Rightarrow> dumpConfig \<Rightarrow> dest \<Rightarrow> string \<Rightarrow> world \<Rightarrow> string \<times> error option" where
  "call_uploader e c d file w =
     (case d of
        DestSFTP \<Rightarrow> sftpUpload e file (plan c) w
      | DestS3 \<Rightarrow> s3Upload e file (plan c) (ts c) (UseAwsCli (conf c)) w
      | DestGCloud \<Rightarrow> gCloudUpload e file (plan c) w
      | DestAzure \<Rightarrow> azureUpload e file (plan c) w
      | DestRclone \<Rightarrow> rcloneUpload e file (plan c) w)"

definition upload_to :: "env \<Rightarrow> dumpConfig \<Rightarrow> dest \<Rightarrow> string \<Rightarrow> world \<Rightarrow> error option \<times> world" where
  "upload_to e c d file w = (snd (call_uploader e c d file w), emit (EvUpload d file) w)"

definition uploads :: "env \<Rightarrow> dumpConfig \<Rightarrow> string \<Rightarrow> world \<Rightarrow> error option \<times> world" where
  "uploads e c file w =
     (case (if SFTP (plan c) \<noteq> None then upload_to e c DestSFTP file w else (None, w)) of
        (Some err, w1) \<Rightarrow> (Some err, w1)
      | (None, w1) \<Rightarrow>
     (case (if S3 (plan c) \<noteq> None then upload_to e c DestS3 file w1 else (None, w1)) of
        (Some err, w2) \<Rightarrow> (Some err, w2)
      | (None, w2) \<Rightarrow>
     (case (if GCloud (plan c) \<noteq> None then upload_to e c DestGCloud file w2 else (None, w2)) of
        (Some err, w3) \<Rightarrow> (Some err, w3)
      | (None, w3) \<Rightarrow>
     (case (if Azure (plan c) \<noteq> None then upload_to e c DestAzure file w3 else (None, w3)) of
        (Some err, w4) \<Rightarrow> (Some err, w4)
      | (None, w4) \<Rightarrow>
     (if Rclone (plan c) \<noteq> None then upload_to e c DestRclone file w4 else (None, w4))))))"

text \<open>Everything of the chain that comes before the uploads (lines 236 to 296): either
  the chain has ended with an error, or the uploads start with this \<open>Result\<close> and file.\<close>

definition beforeUpload ::
  "env \<Rightarrow> dumpConfig \<Rightarrow> world \<Rightarrow> ((Result \<times> error) + (Result \<times> string)) \<times> world" where
  "beforeUpload e c w =
     (case dump e c w of
        ((archive, mlog, err), w1) \<Rightarrow>
          (let res = (errRes c)\<lparr>ArtifactName := snd (filepath_Split archive)\<rparr>
           in case err of
                Some er \<Rightarrow> (Inl (res, er), w1)
              | None \<Rightarrow>
                  (case stageAndMove e c archive mlog res w1 of
                     ((res1, Some er), w2) \<Rightarrow> (Inl (res1, er), w2)
                   | ((res1, None), w2) \<Rightarrow>
                       (case retain e c w2 of
                          (Some er, w3) \<Rightarrow> (Inl (res1, er), w3)
                        | (None, w3) \<Rightarrow>
                            (case encryptStage e c (filepath_Join e (planDir c) (ArtifactName res1)) w3 of
                               (Inl er, w4) \<Rightarrow> (Inl (res1, er), w4)
                             | (Inr file, w4) \<Rightarrow> (Inr (res1, file), w4))))))"

text \<open>\<open>func runDumpAndUpload(c *dumpConfig) (Result, error)\<close>\<close>

definition runDumpAndUpload :: "env \<Rightarrow> dumpConfig \<Rightarrow> world \<Rightarrow> (Result \<times> error option) \<times> world" where
  "runDumpAndUpload e c w =
     (case beforeUpload e c w of
        (Inl (res, er), w1) \<Rightarrow> ((res, Some er), w1)
      | (Inr (res, file), w1) \<Rightarrow>
          (case uploads e c file w1 of
             (Some er, w2) \<Rightarrow> ((res, Some er), w2)
           | (None, w2) \<Rightarrow>
               ((res\<lparr>Status := 200, Duration := time_Sub (time_Now e w2) (ts c)\<rparr>, None), w2)))"

section \<open>Enumeration and the per-database fan-out\<close>

text \<open>\<open>func getDBNames(c *dumpConfig) ([]string, error)\<close>. The deferred disconnect runs
  on every return after the connection is made.\<close>

definition getDBNames :: "env \<Rightarrow> dumpConfig \<Rightarrow> world \<Rightarrow> (error + string list) \<times> world" where
  "getDBNames e c w =
     (let w1 = emit (EvConnect (Uri (Target (plan c)))) w
      in case mongo_Connect e (Uri (Target (plan c))) w of
           Some err \<Rightarrow> (Inl (Errorf (''failed to connect to MongoDB: '' @ Error err)), w1)
         | None \<Rightarrow>
             (let w2 = emit EvListDatabaseNames w1
              in case ListDatabaseNames e w1 of
                   Inl err \<Rightarrow>
                     (Inl (Errorf (''failed to list databases: '' @ Error err)), emit EvDisconnect w2)
                 | Inr dbNames \<Rightarrow> (Inr dbNames, emit EvDisconnect w2)))"

text \<open>
  The loop \<open>dbLoop\<close> of \<open>runDumpPerDBAndUpload\<close> with its three variables \<open>attempts\<close>,
  \<open>totalSize\<close> and \<open>failedDBs\<close>. The copy \<open>dc\<close> gets the database and the name of the
  child; the call, as in the source, is \<open>runDumpAndUpload(c)\<close>.
\<close>

fun dbLoop ::
  "env \<Rightarrow> dumpConfig \<Rightarrow> string list \<Rightarrow> int \<times> int \<times> string list \<Rightarrow> world
     \<Rightarrow> (int \<times> int \<times> string list) \<times> world" where
  "dbLoop e c [] st w = (st, w)"
| "dbLoop e c (dbName # dbNames) (attempts, totalSize, failedDBs) w =
     (if dbName \<in> set (ExcludeDatabases (Target (plan c)))
      then dbLoop e c dbNames (attempts, totalSize, failedDBs) w
      else (let dc = c\<lparr>database := dbName, name := Name (plan c) @ ''-'' @ dbName\<rparr>
            in case runDumpAndUpload e c w of
                 ((res, Some err), w1) \<Rightarrow>
                   dbLoop e c dbNames (attempts + 1, totalSize, failedDBs @ [dbName]) w1
               | ((res, None), w1) \<Rightarrow>
                   dbLoop e c dbNames (attempts + 1, wrap64 (totalSize + Size res), failedDBs) w1))"

text \<open>\<open>func runDumpPerDBAndUpload(c *dumpConfig) (Result, error)\<close>\<close>

definition runDumpPerDBAndUpload :: "env \<Rightarrow> dumpConfig \<Rightarrow> world \<Rightarrow> (Result \<times> error option) \<times> world" where
  "runDumpPerDBAndUpload e c w =
     (if Uri (Target (plan c)) = []
      then ((errRes c, Some (Errorf (''must use MongoDB URI with '' @ sq @ Mode (plan c) @ sq @ '' backup mode''))), w)
      else (case getDBNames e c w of
              (Inl err, w1) \<Rightarrow> ((errRes c, Some err), w1)
            | (Inr dbNames, w1) \<Rightarrow>
                (case dbLoop e c dbNames (0, 0, []) w1 of
                   ((attempts, totalSize, failedDBs), w2) \<Rightarrow>
                     (let res = (errRes c)\<lparr>Duration := time_Sub (time_Now e w2) (ts c)\<rparr>
                      in if length failedDBs > 0
                         then ((res, Some (Errorf (itoa (int (length failedDBs)) @ '' of '' @ itoa attempts
                                  @ '' database backups failed: '' @ strings_Join failedDBs '',''))), w2)
                         else ((res\<lparr>Status := 200, Size := totalSize\<rparr>, None), w2)))))"

section \<open>The entry point\<close>

text \<open>\<open>func Run(plan config.Plan, conf *config.AppConfig, modules *config.ModuleConfig)\<close>;
  the third parameter is not used by the source.\<close>

definition Run :: "env \<Rightarrow> Plan \<Rightarrow> AppConfig \<Rightarrow> world \<Rightarrow> (Result \<times> error option) \<times> world" where
  "Run e p cf w =
     (let c = \<lparr>plan = p, conf = cf, tmpPath = TmpPath cf, storagePath = StoragePath cf,
                planDir = StoragePath cf @ ''/'' @ Name p, ts = time_Now e w, name = Name p,
                database = Database (Target p)\<rparr>
      in if Mode p = BackupModeDatabase e then runDumpPerDBAndUpload e c w
         else if Mode p = [] \<or> Mode p = BackupModeSingle e
         then (if length (ExcludeDatabases (Target (plan c))) \<noteq> 0
               then ((errRes c, Some (Errorf (''cannot exclude databases with '' @ sq @ BackupModeSingle e @ sq
                        @ '' (default) backup mode''))), w)
               else runDumpAndUpload e c w)
         else ((errRes c, Some (Errorf (''unknown mode: '' @ sq @ Mode p @ sq))), w))"

section \<open>Concrete plans and environments\<close>

text \<open>A plan with a URI and nothing optional, a runtime configuration, and the empty
  world. In \<open>env0\<close> every external call succeeds: the dump writes a 100-byte archive
  and prints nothing, the clock is the number of calls made so far, and the database
  lists \<open>A\<close> and \<open>B\<close>.\<close>

definition target0 :: Target where
  "target0 = \<lparr>Uri = ''mongodb://db'', Host = ''localhost'', Port = 27017, Username = [],
               Password = [], Database = [], Collection = [], ExcludeCollections = [],
               ExcludeDatabases = [], Params = []\<rparr>"

definition plan0 :: Plan where
  "plan0 = \<lparr>Name = ''p'', Mode = [], Target = target0,
             Scheduler = \<lparr>Timeout = 1, Retention = 2\<rparr>, Encryption = None, SFTP = None,
             S3 = None, GCloud = None, Azure = None, Rclone = None\<rparr>"

definition conf0 :: AppConfig where
  "conf0 = \<lparr>TmpPath = ''/tmp'', StoragePath = ''/storage'', UseAwsCli = False\<rparr>"

definition w0 :: world where
  "w0 = \<lparr>files = Map.empty, trace = []\<rparr>"

definition env0 :: env where
  "env0 = \<lparr>BackupModeDatabase = ''database'', BackupModeSingle = ''single'',
            filepath_Join = (\<lambda>d f. d @ ''/'' @ f),
            time_Now = (\<lambda>w. int (length (trace w))),
            sh_CombinedOutput = (\<lambda>argv d w. ([], None, (files w)(''/tmp/p-0.gz'' \<mapsto> replicate 100 (CHR ''x'')))),
            sh_Run = (\<lambda>argv w. (None, files w)),
            unlink_error = (\<lambda>p w. None),
            write_error = (\<lambda>p w. None),
            stat_error = (\<lambda>p w. None),
            encrypt = (\<lambda>f g p c w. ([], None, files w)),
            removeUnencrypted = (\<lambda>f g w. files w),
            sftpUpload = (\<lambda>f p w. ([], None)),
            s3Upload = (\<lambda>f p t a w. ([], None)),
            gCloudUpload = (\<lambda>f p w. ([], None)),
            azureUpload = (\<lambda>f p w. ([], None)),
            rcloneUpload = (\<lambda>f p w. ([], None)),
            mongo_Connect = (\<lambda>u w. None),
            ListDatabaseNames = (\<lambda>w. Inr [''A'', ''B''])\<rparr>"

text \<open>The context that \<open>Run\<close> builds for \<open>plan0\<close> at time 0.\<close>

definition c0 :: dumpConfig where
  "c0 = \<lparr>plan = plan0, conf = conf0, tmpPath = ''/tmp'', storagePath = ''/storage'',
          planDir = ''/storage/p'', ts = 0, name = ''p'', database = []\<rparr>"

text \<open>An environment that differs from \<open>env0\<close> in one answer: the shell command that
  prunes the archives of \<open>/storage/p\<close> fails; every other command succeeds.\<close>

definition env_gz_fails :: env where
  "env_gz_fails = env0\<lparr>sh_Run :=
     (\<lambda>argv w. if argv = [''/bin/sh'', ''-c'', retention_gz_cmd ''/storage/p'' 2]
                then (Some (Errorf ''exit status 1''), files w) else (None, files w))\<rparr>"

text \<open>An environment in which the dump tool writes a part of the archive, prints two
  lines and exits with an error, and the operating system refuses to unlink files.\<close>

definition env_dump_fails_locked :: env where
  "env_dump_fails_locked = env0\<lparr>
     sh_CombinedOutput :=
       (\<lambda>argv d w. (''a'' @ [CHR 0x0A] @ ''b'', Some (Errorf ''exit status 1''),
                    (files w)(''/tmp/p-0.gz'' \<mapsto> ''partial''))),
     unlink_error := (\<lambda>p w. Some (Errorf ''operation not permitted''))\<rparr>"

subsection \<open>The dump command, piece by piece\<close>

text \<open>
  One constructor for each \<open>fmt.Sprintf\<close> whose result \<open>dump\<close> appends to the command:
  the prefix with the archive, the URI, host and port, the credentials, the database,
  the collection, an excluded collection, and the free parameters.
\<close>

datatype flag =
    FlagArchive string
  | FlagUri string
  | FlagHostPort string int
  | FlagCredentials string string
  | FlagDb string
  | FlagCollection string
  | FlagExcludeCollection string
  | FlagParams string

fun render_flag :: "flag \<Rightarrow> string" where
  "render_flag (FlagArchive a) = ''mongodump --archive='' @ a @ '' --gzip ''"
| "render_flag (FlagUri u) = ''--uri '' @ dq @ u @ dq @ '' ''"
| "render_flag (FlagHostPort h p) = ''--host '' @ h @ '' --port '' @ itoa p @ '' ''"
| "render_flag (FlagCredentials u p) = ''-u '' @ dq @ u @ dq @ '' -p '' @ dq @ p @ dq @ '' ''"
| "render_flag (FlagDb d) = ''--db '' @ d @ '' ''"
| "render_flag (FlagCollection x) = ''--collection '' @ x @ '' ''"
| "render_flag (FlagExcludeCollection x) = ''--excludeCollection '' @ x @ '' ''"
| "render_flag (FlagParams p) = p"

fun is_connection_flag :: "flag \<Rightarrow> bool" where
  "is_connection_flag (FlagUri u) = True"
| "is_connection_flag (FlagHostPort h p) = True"
| "is_connection_flag (FlagCredentials u p) = True"
| "is_connection_flag _ = False"

definition dump_flags :: "dumpConfig \<Rightarrow> flag list" where
  "dump_flags c =
     (let t = Target (plan c)
      in [FlagArchive (archive_path c)]
         @ (if Uri t \<noteq> [] then [FlagUri (Uri t)]
            else [FlagHostPort (Host t) (Port t)]
                 @ (if Username t \<noteq> [] \<and> Password t \<noteq> []
                    then [FlagCredentials (Username t) (Password t)] else []))
         @ (if database c \<noteq> [] then [FlagDb (database c)] else [])
         @ (if Collection t \<noteq> [] then [FlagCollection (Collection t)] else [])
         @ map FlagExcludeCollection (filter (\<lambda>x. x \<noteq> []) (ExcludeCollections t))
         @ (if Params t \<noteq> [] then [FlagParams (Params t)] else []))"

text \<open>The same failing dump where the operating system lets the file be unlinked.\<close>

definition env_dump_fails :: env where
  "env_dump_fails = env_dump_fails_locked\<lparr>unlink_error := (\<lambda>p w. None)\<rparr>"

section \<open>Auxiliary facts\<close>

lemma digits_small: "n < 10 \<Longrightarrow> digits n = [''0123456789'' ! n]"
  by (subst digits.simps) simp

lemma itoa_0: "itoa 0 = ''0''"
  by (simp add: itoa_def digits_small)

lemma itoa_3: "itoa 3 = ''3''"
  by (simp add: itoa_def digits_small)

lemma runDumpPerDBAndUpload_no_uri:
  "Uri (Target (plan c)) = [] \<Longrightarrow>
   runDumpPerDBAndUpload e c w =
     ((errRes c, Some (Errorf (''must use MongoDB URI with '' @ sq @ Mode (plan c) @ sq @ '' backup mode''))), w)"
  by (simp add: runDumpPerDBAndUpload_def)

section \<open>Configuration errors of the entry point\<close>

text \<open>
  Claim C8. A plan in single mode (its mode is empty or is \<open>BackupModeSingle\<close>, and is
  not dispatched as per-database mode) whose list of excluded databases is not empty
  makes \<open>Run\<close> return the failure \<open>Result\<close> (status 500) with the error
  "cannot exclude databases with 'single' (default) backup mode", and the world is the
  one \<open>Run\<close> started in: no file has changed and no external call has been made, so no
  dump command was executed.
\<close>

theorem single_mode_with_exclusions_is_rejected:
  assumes "Mode p \<noteq> BackupModeDatabase e"
    and "Mode p = [] \<or> Mode p = BackupModeSingle e"
    and "ExcludeDatabases (Target p) \<noteq> []"
  shows "Run e p cf w =
    ((\<lparr>PlanName = Name p, Timestamp = time_Now e w, Status = 500, Duration = 0,
        ArtifactName = [], Size = 0\<rparr>,
      Some (Errorf (''cannot exclude databases with '' @ sq @ BackupModeSingle e @ sq
                      @ '' (default) backup mode''))), w)"
  using assms by (auto simp add: Run_def errRes_def Let_def)

theorem single_mode_with_exclusions_witness:
  "Mode (plan0\<lparr>Target := target0\<lparr>ExcludeDatabases := [''admin'']\<rparr>\<rparr>) \<noteq> BackupModeDatabase env0 \<and>
   Mode (plan0\<lparr>Target := target0\<lparr>ExcludeDatabases := [''admin'']\<rparr>\<rparr>) = [] \<and>
   ExcludeDatabases (Target (plan0\<lparr>Target := target0\<lparr>ExcludeDatabases := [''admin'']\<rparr>\<rparr>)) \<noteq> [] \<and>
   Run env0 (plan0\<lparr>Target := target0\<lparr>ExcludeDatabases := [''admin'']\<rparr>\<rparr>) conf0 w0 =
    ((\<lparr>PlanName = ''p'', Timestamp = 0, Status = 500, Duration = 0, ArtifactName = [], Size = 0\<rparr>,
      Some (Errorf (''cannot exclude databases with '' @ sq @ ''single'' @ sq
                      @ '' (default) backup mode''))), w0)"
  using single_mode_with_exclusions_is_rejected
          [of "plan0\<lparr>Target := target0\<lparr>ExcludeDatabases := [''admin'']\<rparr>\<rparr>" env0 conf0 w0]
  by (simp add: plan0_def env0_def w0_def target0_def)

text \<open>
  Claim C9. A plan in per-database mode whose URI is empty makes \<open>Run\<close> return the
  failure \<open>Result\<close> with the error "must use MongoDB URI with '<mode>' backup mode", and
  the world is unchanged: no connection was opened (no \<open>EvConnect\<close>), the databases were
  not listed and no child attempt ran.
\<close>

theorem per_database_mode_without_uri_is_rejected:
  assumes "Mode p = BackupModeDatabase e" and "Uri (Target p) = []"
  shows "Run e p cf w =
    ((\<lparr>PlanName = Name p, Timestamp = time_Now e w, Status = 500, Duration = 0,
        ArtifactName = [], Size = 0\<rparr>,
      Some (Errorf (''must use MongoDB URI with '' @ sq @ Mode p @ sq @ '' backup mode''))), w)"
  using assms by (simp add: Run_def Let_def runDumpPerDBAndUpload_no_uri errRes_def)

theorem per_database_mode_without_uri_witness:
  "Mode (plan0\<lparr>Mode := ''database'', Target := target0\<lparr>Uri := []\<rparr>\<rparr>) = BackupModeDatabase env0 \<and>
   Uri (Target (plan0\<lparr>Mode := ''database'', Target := target0\<lparr>Uri := []\<rparr>\<rparr>)) = [] \<and>
   Run env0 (plan0\<lparr>Mode := ''database'', Target := target0\<lparr>Uri := []\<rparr>\<rparr>) conf0 w0 =
    ((\<lparr>PlanName = ''p'', Timestamp = 0, Status = 500, Duration = 0, ArtifactName = [], Size = 0\<rparr>,
      Some (Errorf (''must use MongoDB URI with '' @ sq @ ''database'' @ sq @ '' backup mode''))), w0)"
  using per_database_mode_without_uri_is_rejected
          [of "plan0\<lparr>Mode := ''database'', Target := target0\<lparr>Uri := []\<rparr>\<rparr>" env0 conf0 w0]
  by (simp add: plan0_def env0_def w0_def target0_def)

text \<open>
  Claim C10. A plan whose mode is neither \<open>BackupModeDatabase\<close>, nor empty, nor
  \<open>BackupModeSingle\<close> makes \<open>Run\<close> return the failure \<open>Result\<close> of \<open>errRes\<close> (status
  500, the plan's name, the start time) with the error "unknown mode: '<mode>'", and the
  world is unchanged: nothing was dumped and nothing was enumerated.
\<close>

theorem unknown_mode_is_rejected:
  assumes "Mode p \<noteq> BackupModeDatabase e" and "Mode p \<noteq> []" and "Mode p \<noteq> BackupModeSingle e"
  shows "Run e p cf w =
    ((\<lparr>PlanName = Name p, Timestamp = time_Now e w, Status = 500, Duration = 0,
        ArtifactName = [], Size = 0\<rparr>,
      Some (Errorf (''unknown mode: '' @ sq @ Mode p @ sq))), w)"
  using assms by (simp add: Run_def Let_def errRes_def)

theorem unknown_mode_witness:
  "Mode (plan0\<lparr>Mode := ''weekly''\<rparr>) \<noteq> BackupModeDatabase env0 \<and>
   Mode (plan0\<lparr>Mode := ''weekly''\<rparr>) \<noteq> [] \<and>
   Mode (plan0\<lparr>Mode := ''weekly''\<rparr>) \<noteq> BackupModeSingle env0 \<and>
   Run env0 (plan0\<lparr>Mode := ''weekly''\<rparr>) conf0 w0 =
    ((\<lparr>PlanName = ''p'', Timestamp = 0, Status = 500, Duration = 0, ArtifactName = [], Size = 0\<rparr>,
      Some (Errorf (''unknown mode: '' @ sq @ ''weekly'' @ sq))), w0)"
  using unknown_mode_is_rejected [of "plan0\<lparr>Mode := ''weekly''\<rparr>" env0 conf0 w0]
  by (simp add: plan0_def env0_def w0_def)

end
